theory Spec2Isabelle
  imports Complex_Main "HOL-Library.Sublist"
begin

section \<open>bilibili_api.ass: operations on ASS files\<close>

text \<open>
  The module \<^verbatim>\<open>bilibili_api/ass.py\<close> orchestrates three conversions: danmaku (as an
  XML document) to ASS, SRT to ASS, and captioning JSON to ASS through SRT; and three
  retrieval wrappers that fetch the data of a video object, store it in a temporary file
  and run a conversion on it. The functions below follow the Python text statement by
  statement. Everything the Python does beyond returning a value is explicit: the file
  system and a trace of the calls that leave the module are a state that every function
  takes and returns, and an exception is the \<open>Inl\<close> branch of the result.
\<close>

subsection \<open>Python strings\<close>

text \<open>
  \<^verbatim>\<open>s.replace(old, new)\<close>: every non-overlapping occurrence of \<open>old\<close>, scanning from the
  left, is replaced. With an empty \<open>old\<close>, Python inserts \<open>new\<close> before every character
  and at the end.
\<close>

function str_replace :: "string \<Rightarrow> string \<Rightarrow> string \<Rightarrow> string" where
  "str_replace old new [] = (if old = [] then new else [])"
| "str_replace old new (c # cs) =
     (if old = [] then new @ c # str_replace old new cs
      else if prefix old (c # cs)
        then new @ str_replace old new (drop (length old) (c # cs))
      else c # str_replace old new cs)"
  by pat_completeness auto
termination
  by (relation "measure (\<lambda>(old, new, s). length s)") (auto simp: Suc_diff_le)

text \<open>\<^verbatim>\<open>sub in s\<close>: \<open>sub\<close> occurs in \<open>s\<close> as a contiguous block.\<close>

fun contains :: "string \<Rightarrow> string \<Rightarrow> bool" where
  "contains sub [] = (sub = [])"
| "contains sub (c # cs) = (prefix sub (c # cs) \<or> contains sub cs)"

subsection \<open>Exceptions, the file system and the trace\<close>

text \<open>
  The exception classes that the module raises itself or that Python raises on its
  behalf. The messages (in Chinese in the source) are not modelled.
  \<^item> \<open>ValueError\<close>: raised by \<open>make_ass_file_subtitle\<close> when no subtitle has the name;
  \<^item> \<open>ArgsException\<close>: raised when neither a page index nor a cid is given;
  \<^item> \<open>AttributeError\<close>: a method call on \<open>None\<close>;
  \<^item> \<open>KeyError\<close>: a dictionary without the key that is read;
  \<^item> \<open>FileNotFoundError\<close>: reading or removing a file that does not exist;
  \<^item> \<open>UnboundLocalError\<close>: reading a local variable that no branch has assigned;
  \<^item> \<open>StageSizeError\<close>: the rejection of a stage size by the rendering core;
  \<^item> \<open>OtherError\<close>: any other exception of a collaborator, by its name.
\<close>

datatype exn =
    ValueError
  | ArgsException
  | AttributeError
  | KeyError
  | FileNotFoundError
  | UnboundLocalError
  | StageSizeError
  | OtherError string

type_synonym path = string

type_synonym date = "nat \<times> nat \<times> nat"

text \<open>The keyword arguments that \<open>export_ass_from_xml\<close> gives to \<open>Danmaku2ASS\<close>.\<close>

record d2a_args =
  input_files :: path
  input_format :: string
  output_file :: path
  stage_width :: int
  stage_height :: int
  reserve_blank :: int
  font_face :: string
  font_size :: real
  text_opacity :: real
  duration_marquee :: real
  duration_still :: real

text \<open>
  The calls that leave the module, in the order they happen: the retrievals on the video
  object, the HTTP request, the converters and \<^verbatim>\<open>os.remove\<close>.
\<close>

datatype event =
    EvGetInfo
  | EvGetPageIdByIndex int
  | EvGetDanmakus "int option" "date option"
  | EvGetDanmakuXml "int option"
  | EvHttpGet string
  | EvJson2Srt path path
  | EvSrt2Ass path path string
  | EvDanmaku2ASS d2a_args
  | EvRemove path

record world =
  files :: "path \<rightharpoonup> string"
  trace :: "event list"

type_synonym 'a io = "world \<Rightarrow> (exn + 'a) \<times> world"

definition io_return :: "'a \<Rightarrow> 'a io" where
  "io_return x w = (Inr x, w)"

definition io_raise :: "exn \<Rightarrow> 'a io" where
  "io_raise e w = (Inl e, w)"

text \<open>Sequencing: an exception of the first statement skips the rest.\<close>

definition io_bind :: "'a io \<Rightarrow> ('a \<Rightarrow> 'b io) \<Rightarrow> 'b io" where
  "io_bind m k w = (case m w of (Inl e, w') \<Rightarrow> (Inl e, w') | (Inr x, w') \<Rightarrow> k x w')"

definition lift :: "exn + 'a \<Rightarrow> 'a io" where
  "lift r w = (r, w)"

definition emit :: "event \<Rightarrow> unit io" where
  "emit ev w = (Inr (), w\<lparr>trace := trace w @ [ev]\<rparr>)"

text \<open>An awaited call on a collaborator: the call is traced, then it returns or raises.\<close>

definition await :: "event \<Rightarrow> exn + 'a \<Rightarrow> 'a io" where
  "await ev r = io_bind (emit ev) (\<lambda>_. lift r)"

definition read_file :: "path \<Rightarrow> string io" where
  "read_file p w = (case files w p of None \<Rightarrow> (Inl FileNotFoundError, w) | Some s \<Rightarrow> (Inr s, w))"

text \<open>\<^verbatim>\<open>open(p, "w")\<close> followed by writes: the file holds exactly what was written.\<close>

definition write_file :: "path \<Rightarrow> string \<Rightarrow> unit io" where
  "write_file p s w = (Inr (), w\<lparr>files := (files w)(p \<mapsto> s)\<rparr>)"

text \<open>\<^verbatim>\<open>os.remove(p)\<close>: raises when there is no such file.\<close>

definition os_remove :: "path \<Rightarrow> unit io" where
  "os_remove p =
     io_bind (emit (EvRemove p)) (\<lambda>_. \<lambda>w.
       if p \<in> dom (files w) then (Inr (), w\<lparr>files := (files w)(p := None)\<rparr>)
       else (Inl FileNotFoundError, w))"

subsection \<open>The collaborators outside the module\<close>

text \<open>
  What the module imports and this development takes as given: the temporary directory,
  the HTTP session, and the three text transformations. Each transformation may raise.
\<close>

record env =
  gettempdir :: string
  http_get :: "string \<Rightarrow> exn + string"
  json2srt_text :: "string \<Rightarrow> exn + string"
  srt2ass_text :: "string \<Rightarrow> string \<Rightarrow> exn + string"
  layout_and_emit :: "d2a_args \<Rightarrow> string \<Rightarrow> exn + string"

text \<open>
  Modelled from the spec: \<open>json2srt\<close> of \<^verbatim>\<open>utils/json2srt.py\<close>, which is not among the
  sources. Shim (b) of the spec: it converts the captioning JSON structure in its first
  file into the basic subtitle-exchange format, written to its second file.
\<close>

definition json2srt :: "env \<Rightarrow> path \<Rightarrow> path \<Rightarrow> unit io" where
  "json2srt env file_local srt_local =
     io_bind (emit (EvJson2Srt file_local srt_local)) (\<lambda>_.
     io_bind (read_file file_local) (\<lambda>doc.
     io_bind (lift (json2srt_text env doc)) (\<lambda>srt.
     write_file srt_local srt)))"

text \<open>
  Modelled from the spec: \<open>srt2ass\<close> of \<^verbatim>\<open>utils/srt2ass.py\<close>, which is not among the
  sources. Shim (a) of the spec: it reformats the subtitle-exchange text of its first file
  into the header, style and event structure of ASS, written to its second file as a
  complete file (overwrite semantics).
\<close>

definition srt2ass :: "env \<Rightarrow> path \<Rightarrow> path \<Rightarrow> string \<Rightarrow> unit io" where
  "srt2ass env file_local output_local style =
     io_bind (emit (EvSrt2Ass file_local output_local style)) (\<lambda>_.
     io_bind (read_file file_local) (\<lambda>srt.
     io_bind (lift (srt2ass_text env srt style)) (\<lambda>ass.
     write_file output_local ass)))"

text \<open>
  Modelled from the spec: \<open>Danmaku2ASS\<close> of \<^verbatim>\<open>utils/danmaku2ass.py\<close>, which is not among
  the sources. The core of the spec: it requires a valid stage size as a precondition and
  rejects zero and negative dimensions; otherwise it parses the comments of the input
  file, lays them out and writes the ASS text to the output file as a complete file
  (overwrite semantics). Parser, layout engine and emitter are the one transformation
  \<open>layout_and_emit\<close>.
\<close>

definition Danmaku2ASS :: "env \<Rightarrow> d2a_args \<Rightarrow> unit io" where
  "Danmaku2ASS env a =
     io_bind (emit (EvDanmaku2ASS a)) (\<lambda>_.
     if stage_width a \<le> 0 \<or> stage_height a \<le> 0 then io_raise StageSizeError
     else
       io_bind (read_file (input_files a)) (\<lambda>xml.
       io_bind (lift (layout_and_emit env a xml)) (\<lambda>ass.
       write_file (output_file a) ass)))"

subsection \<open>The video objects\<close>

text \<open>
  A video object is one of three classes. \<open>Episode\<close> is a subclass of \<open>Video\<close>, so
  \<^verbatim>\<open>isinstance(obj, Video)\<close> holds of both; \<open>CheeseVideo\<close> is a class of its own. An object
  is modelled by its class and by what each of its methods answers (or raises) when it
  is awaited.
\<close>

datatype obj_class = Video | Episode | CheeseVideo

record video_dimension =
  width :: int
  height :: int

record subtitle_track =
  lan_doc :: string
  subtitle_url :: string

text \<open>
  The dictionary that \<open>get_info\<close> answers: \<open>dimension\<close> is \<^verbatim>\<open>info["dimension"]\<close> and
  \<open>subtitle_list\<close> is \<^verbatim>\<open>info["subtitle"]["list"]\<close>; \<open>None\<close> is a missing key.
\<close>

record info =
  dimension :: "video_dimension option"
  subtitle_list :: "subtitle_track list option"

record danmaku =
  to_xml :: string

record obj =
  cls :: obj_class
  get_info :: "exn + info"
  get_page_id_by_index :: "int \<Rightarrow> exn + int"
  get_danmakus :: "int option \<Rightarrow> date option \<Rightarrow> exn + danmaku list"
  get_danmaku_xml :: "int option \<Rightarrow> exn + string"

definition isinstance_Video :: "obj \<Rightarrow> bool" where
  "isinstance_Video o' = (cls o' = Video \<or> cls o' = Episode)"

definition isinstance_Episode :: "obj \<Rightarrow> bool" where
  "isinstance_Episode o' = (cls o' = Episode)"

definition isinstance_CheeseVideo :: "obj \<Rightarrow> bool" where
  "isinstance_CheeseVideo o' = (cls o' = CheeseVideo)"

text \<open>
  A credential is modelled by what its \<open>raise_for_no_sessdata\<close> does: it returns or
  raises. The argument \<open>credential\<close> of the wrappers defaults to \<open>None\<close>.
\<close>

record credential =
  raise_for_no_sessdata :: "exn + unit"

subsection \<open>The conversions\<close>

text \<open>
  \<open>export_ass_from_xml\<close> is one call of \<open>Danmaku2ASS\<close> with keyword arguments: the two
  components of the stage size, the literal format name, the literal blank reserve 0, and
  the arguments of the caller. Font size, opacity and the two durations are Python
  numbers that are only handed on; they are reals here.
\<close>

definition export_ass_from_xml ::
  "env \<Rightarrow> path \<Rightarrow> path \<Rightarrow> int \<times> int \<Rightarrow> string \<Rightarrow> real \<Rightarrow> real \<Rightarrow> real \<Rightarrow> real \<Rightarrow> unit io" where
  "export_ass_from_xml env file_local output_local stage_size font_name fsize alpha fly_time
       static_time =
     Danmaku2ASS env
       \<lparr>input_files = file_local,
        input_format = ''Bilibili'',
        output_file = output_local,
        stage_width = fst stage_size,
        stage_height = snd stage_size,
        reserve_blank = 0,
        font_face = font_name,
        font_size = fsize,
        text_opacity = alpha,
        duration_marquee = fly_time,
        duration_still = static_time\<rparr>"

definition export_ass_from_srt :: "env \<Rightarrow> path \<Rightarrow> path \<Rightarrow> unit io" where
  "export_ass_from_srt env file_local output_local =
     srt2ass env file_local output_local ''movie''"

text \<open>
  \<open>export_ass_from_json\<close> is three statements: \<open>json2srt\<close> to the output path with every
  \<^verbatim>\<open>.ass\<close> replaced by \<^verbatim>\<open>.srt\<close>, \<open>srt2ass\<close> from there to the output path, and
  \<^verbatim>\<open>os.remove\<close> of that intermediate path. There is no \<^verbatim>\<open>try\<close> around them.
\<close>

definition export_ass_from_json :: "env \<Rightarrow> path \<Rightarrow> path \<Rightarrow> unit io" where
  "export_ass_from_json env file_local output_local =
     io_bind (json2srt env file_local (str_replace ''.ass'' ''.srt'' output_local)) (\<lambda>_.
     io_bind (srt2ass env (str_replace ''.ass'' ''.srt'' output_local) output_local ''movie'') (\<lambda>_.
     os_remove (str_replace ''.ass'' ''.srt'' output_local)))"

subsection \<open>The retrieval wrappers\<close>

text \<open>
  The loop of \<open>make_ass_file_subtitle\<close> over the subtitle tracks: the first track whose
  \<open>lan_doc\<close> is the name is downloaded, stored and converted, and the function returns;
  the statement after the loop raises.
\<close>

fun subtitle_loop :: "env \<Rightarrow> subtitle_track list \<Rightarrow> path \<Rightarrow> string \<Rightarrow> unit io" where
  "subtitle_loop env [] out name = io_raise ValueError"
| "subtitle_loop env (subtitle # json_files) out name =
     (if lan_doc subtitle = name then
        (let url = subtitle_url subtitle in
         io_bind (await (EvHttpGet url) (http_get env url)) (\<lambda>content.
         let file_dir = gettempdir env @ ''/'' @ ''subtitle.json'' in
         io_bind (write_file file_dir content) (\<lambda>_.
         export_ass_from_json env file_dir out)))
      else subtitle_loop env json_files out name)"

text \<open>
  \<open>make_ass_file_subtitle\<close> awaits \<open>get_info\<close>, reads the track list and runs the loop. Its
  argument \<open>credential\<close> is not used.
\<close>

definition make_ass_file_subtitle ::
  "env \<Rightarrow> obj \<Rightarrow> path \<Rightarrow> string \<Rightarrow> credential option \<Rightarrow> unit io" where
  "make_ass_file_subtitle env o' out name cred =
     io_bind (await EvGetInfo (get_info o')) (\<lambda>info.
     case subtitle_list info of
       None \<Rightarrow> io_raise KeyError
     | Some json_files \<Rightarrow> subtitle_loop env json_files out name)"

text \<open>
  The argument check that both danmaku wrappers make on a \<open>Video\<close>: an \<open>Episode\<close> gets cid
  0; otherwise a missing cid is looked up from the page index, and with neither the call
  raises.
\<close>

definition resolve_cid :: "obj \<Rightarrow> int option \<Rightarrow> int option \<Rightarrow> (int option) io" where
  "resolve_cid v page cid =
     (if isinstance_Episode v then io_return (Some 0)
      else
        (case cid of
           None \<Rightarrow>
             (case page of
                None \<Rightarrow> io_raise ArgsException
              | Some p \<Rightarrow>
                  io_bind (await (EvGetPageIdByIndex p) (get_page_id_by_index v p)) (\<lambda>c.
                  io_return (Some c)))
         | Some c \<Rightarrow> io_return (Some c)))"

text \<open>
  \<^verbatim>\<open>try: info = await v.get_info()  except: info = {"dimension": {"width": 1440, "height": 1080}}\<close>
  followed by the two reads of the dimension.
\<close>

definition fallback_info :: info where
  "fallback_info = \<lparr>dimension = Some \<lparr>width = 1440, height = 1080\<rparr>, subtitle_list = None\<rparr>"

definition stage_size_of_video :: "obj \<Rightarrow> (int \<times> int) io" where
  "stage_size_of_video v =
     io_bind (emit EvGetInfo) (\<lambda>_.
     let info = (case get_info v of Inl e \<Rightarrow> fallback_info | Inr i \<Rightarrow> i) in
     case dimension info of
       None \<Rightarrow> io_raise KeyError
     | Some d \<Rightarrow> io_return (width d, height d))"

text \<open>
  The \<^verbatim>\<open>if isinstance(obj, Video): ... elif isinstance(obj, CheeseVideo): ...\<close> block of
  \<open>make_ass_file_danmakus_protobuf\<close>: it assigns \<open>stage_size\<close> and \<open>danmakus\<close>. An
  \<open>Episode\<close> is asked for its danmakus without arguments, a plain \<open>Video\<close> with the cid
  and the date. A \<open>CheeseVideo\<close> gets the stage size 1440 by 1080 and is asked for its
  danmakus without arguments. With an object of neither class no branch assigns
  \<open>danmakus\<close>, and reading it raises.
\<close>

definition dispatch_danmakus ::
  "obj \<Rightarrow> int option \<Rightarrow> int option \<Rightarrow> date option \<Rightarrow> ((int \<times> int) \<times> danmaku list) io" where
  "dispatch_danmakus o' page cid date =
     (if isinstance_Video o' then
        io_bind (resolve_cid o' page cid) (\<lambda>cid.
        io_bind (stage_size_of_video o') (\<lambda>stage_size.
        io_bind
          (if isinstance_Episode o'
           then await (EvGetDanmakus None None) (get_danmakus o' None None)
           else await (EvGetDanmakus cid date) (get_danmakus o' cid date)) (\<lambda>danmakus.
        io_return (stage_size, danmakus))))
      else if isinstance_CheeseVideo o' then
        io_bind (await (EvGetDanmakus None None) (get_danmakus o' None None)) (\<lambda>danmakus.
        io_return ((1440, 1080), danmakus))
      else io_raise UnboundLocalError)"

text \<open>The same block of \<open>make_ass_file_danmakus_xml\<close>, which assigns \<open>xml_content\<close>.\<close>

definition dispatch_danmaku_xml ::
  "obj \<Rightarrow> int option \<Rightarrow> int option \<Rightarrow> ((int \<times> int) \<times> string) io" where
  "dispatch_danmaku_xml o' page cid =
     (if isinstance_Video o' then
        io_bind (resolve_cid o' page cid) (\<lambda>cid.
        io_bind (stage_size_of_video o') (\<lambda>stage_size.
        io_bind
          (if isinstance_Episode o'
           then await (EvGetDanmakuXml None) (get_danmaku_xml o' None)
           else await (EvGetDanmakuXml cid) (get_danmaku_xml o' cid)) (\<lambda>xml_content.
        io_return (stage_size, xml_content))))
      else if isinstance_CheeseVideo o' then
        io_bind (await (EvGetDanmakuXml None) (get_danmaku_xml o' None)) (\<lambda>xml_content.
        io_return ((1440, 1080), xml_content))
      else io_raise UnboundLocalError)"

text \<open>The temporary file of both wrappers: \<^verbatim>\<open>gettempdir() + "/danmaku_temp.xml"\<close>.\<close>

definition danmaku_temp :: "env \<Rightarrow> path" where
  "danmaku_temp env = gettempdir env @ ''/danmaku_temp.xml''"

text \<open>
  \<open>make_ass_file_danmakus_protobuf\<close>: the check of the credential when a date is given
  (a \<^verbatim>\<open>datetime.date\<close> is always true as a condition), the block above, the temporary
  file, written as \<^verbatim>\<open><i>\<close>, the XML of each danmaku and \<^verbatim>\<open></i>\<close>, and the conversion.
\<close>

definition make_ass_file_danmakus_protobuf ::
  "env \<Rightarrow> obj \<Rightarrow> int option \<Rightarrow> path \<Rightarrow> int option \<Rightarrow> credential option \<Rightarrow> date option \<Rightarrow>
   string \<Rightarrow> real \<Rightarrow> real \<Rightarrow> real \<Rightarrow> real \<Rightarrow> unit io" where
  "make_ass_file_danmakus_protobuf env o' page out cid cred date font_name fsize alpha
       fly_time static_time =
     io_bind
       (if date \<noteq> None then
          (case cred of
             None \<Rightarrow> io_raise AttributeError
           | Some c \<Rightarrow> lift (raise_for_no_sessdata c))
        else io_return ()) (\<lambda>_.
     io_bind (dispatch_danmakus o' page cid date) (\<lambda>(stage_size, danmakus).
     io_bind
       (write_file (danmaku_temp env) (''<i>'' @ concat (map to_xml danmakus) @ ''</i>'')) (\<lambda>_.
     export_ass_from_xml env (danmaku_temp env) out stage_size font_name fsize alpha fly_time
       static_time)))"

text \<open>\<open>make_ass_file_danmakus_xml\<close>: the block, the temporary file and the conversion.\<close>

definition make_ass_file_danmakus_xml ::
  "env \<Rightarrow> obj \<Rightarrow> int option \<Rightarrow> path \<Rightarrow> int option \<Rightarrow>
   string \<Rightarrow> real \<Rightarrow> real \<Rightarrow> real \<Rightarrow> real \<Rightarrow> unit io" where
  "make_ass_file_danmakus_xml env o' page out cid font_name fsize alpha fly_time static_time =
     io_bind (dispatch_danmaku_xml o' page cid) (\<lambda>(stage_size, xml_content).
     io_bind (write_file (danmaku_temp env) xml_content) (\<lambda>_.
     export_ass_from_xml env (danmaku_temp env) out stage_size font_name fsize alpha fly_time
       static_time))"

subsection \<open>Notions used in the statements\<close>

text \<open>
  The first statement of \<open>make_ass_file_danmakus_protobuf\<close> lets the call go on: no date is
  given, or the credential is there and its \<open>raise_for_no_sessdata\<close> returns.
\<close>

definition date_check_passes :: "credential option \<Rightarrow> date option \<Rightarrow> bool" where
  "date_check_passes cred date =
     (date = None \<or> (case cred of None \<Rightarrow> False | Some c \<Rightarrow> raise_for_no_sessdata c = Inr ()))"

text \<open>The events of a retrieval, as opposed to those of a converter or of a removal.\<close>

fun is_retrieval :: "event \<Rightarrow> bool" where
  "is_retrieval EvGetInfo = True"
| "is_retrieval (EvGetPageIdByIndex p) = True"
| "is_retrieval (EvGetDanmakus c d) = True"
| "is_retrieval (EvGetDanmakuXml c) = True"
| "is_retrieval (EvHttpGet u) = True"
| "is_retrieval (EvJson2Srt a b) = False"
| "is_retrieval (EvSrt2Ass a b s) = False"
| "is_retrieval (EvDanmaku2ASS a) = False"
| "is_retrieval (EvRemove p) = False"

text \<open>A computation that leaves the files alone and adds only retrieval events.\<close>

definition retrieval_only :: "'a io \<Rightarrow> bool" where
  "retrieval_only m =
     (\<forall>w. files (snd (m w)) = files w \<and>
          (\<exists>es. trace (snd (m w)) = trace w @ es \<and> list_all is_retrieval es))"

subsection \<open>Concrete runs\<close>

text \<open>
  Collaborators that always succeed, except that only one URL can be downloaded; an
  empty file system; a video with three subtitle tracks, two of them named alike; the
  same video with its metadata unreachable; and a course video.
\<close>

definition env0 :: env where
  "env0 =
     \<lparr>gettempdir = ''/tmp'',
      http_get = (\<lambda>url. if url = ''https://host/zh.json'' then Inr ''[captions]''
                         else Inl (OtherError ''HTTPError'')),
      json2srt_text = (\<lambda>doc. Inr (''srt of '' @ doc)),
      srt2ass_text = (\<lambda>srt style. Inr (''ass of '' @ srt)),
      layout_and_emit = (\<lambda>a xml. Inr (''ass of '' @ xml))\<rparr>"

definition w0 :: world where
  "w0 = \<lparr>files = Map.empty, trace = []\<rparr>"

definition w_json :: world where
  "w_json = \<lparr>files = [''/tmp/in.json'' \<mapsto> ''[captions]''], trace = []\<rparr>"

definition w_xml :: world where
  "w_xml = \<lparr>files = [''/tmp/in.xml'' \<mapsto> ''<i></i>''], trace = []\<rparr>"

definition tracks0 :: "subtitle_track list" where
  "tracks0 =
     [\<lparr>lan_doc = ''English'', subtitle_url = ''https://host/en.json''\<rparr>,
      \<lparr>lan_doc = ''Chinese'', subtitle_url = ''https://host/zh.json''\<rparr>,
      \<lparr>lan_doc = ''Chinese'', subtitle_url = ''https://host/zh2.json''\<rparr>]"

definition info0 :: info where
  "info0 = \<lparr>dimension = Some \<lparr>width = 1920, height = 1080\<rparr>, subtitle_list = Some tracks0\<rparr>"

definition video_online :: obj where
  "video_online =
     \<lparr>cls = Video,
      get_info = Inr info0,
      get_page_id_by_index = (\<lambda>p. Inr (100 + p)),
      get_danmakus = (\<lambda>cid date. Inr [\<lparr>to_xml = ''<d>a</d>''\<rparr>, \<lparr>to_xml = ''<d>b</d>''\<rparr>]),
      get_danmaku_xml = (\<lambda>cid. Inr ''<i><d>a</d></i>'')\<rparr>"

definition video_offline :: obj where
  "video_offline = video_online\<lparr>get_info := Inl (OtherError ''NetworkException'')\<rparr>"

definition cheese0 :: obj where
  "cheese0 = video_online\<lparr>cls := CheeseVideo\<rparr>"


section \<open>Properties\<close>

subsection \<open>Strings\<close>

lemmas io_defs = io_bind_def io_return_def io_raise_def lift_def emit_def await_def
  read_file_def write_file_def os_remove_def

lemmas class_defs = isinstance_Video_def isinstance_Episode_def isinstance_CheeseVideo_def

lemmas fixture_defs = env0_def w0_def w_json_def w_xml_def tracks0_def info0_def
  video_online_def video_offline_def cheese0_def

lemma contains_iff_sublist: "contains sub s \<longleftrightarrow> sublist sub s"
  by (induction s) (simp_all add: sublist_Cons_right)

lemma str_replace_absent: "\<not> contains old s \<Longrightarrow> str_replace old new s = s"
  by (induction s) (auto split: if_splits)

lemma str_replace_present:
  "contains old s \<Longrightarrow> length old = length new \<Longrightarrow> old \<noteq> new \<Longrightarrow> str_replace old new s \<noteq> s"
proof (induction s)
  case Nil
  then show ?case by auto
next
  case (Cons c cs)
  show ?case
  proof (cases "prefix old (c # cs)")
    case True
    then obtain r where r: "c # cs = old @ r" by (auto simp: prefix_def)
    from Cons.prems have ne: "old \<noteq> []" by auto
    have "str_replace old new (c # cs) = new @ str_replace old new (drop (length old) (c # cs))"
      using True ne by simp
    moreover have "new @ t \<noteq> old @ r" for t
      using Cons.prems by auto
    ultimately show ?thesis using r by metis
  next
    case False
    with Cons show ?thesis by auto
  qed
qed

lemma srt_path_eq_iff:
  "str_replace ''.ass'' ''.srt'' out = out \<longleftrightarrow> \<not> contains ''.ass'' out"
  using str_replace_absent [of "''.ass''" out "''.srt''"]
    str_replace_present [of "''.ass''" out "''.srt''"] by auto

subsection \<open>The converters, run symbolically\<close>

lemma export_ass_from_json_cases:
  "export_ass_from_json env fl out w =
     (let S = str_replace ''.ass'' ''.srt'' out in
      case files w fl of
        None \<Rightarrow> (Inl FileNotFoundError, w\<lparr>trace := trace w @ [EvJson2Srt fl S]\<rparr>)
      | Some doc \<Rightarrow>
         (case json2srt_text env doc of
            Inl e \<Rightarrow> (Inl e, w\<lparr>trace := trace w @ [EvJson2Srt fl S]\<rparr>)
          | Inr srt \<Rightarrow>
             (case srt2ass_text env srt ''movie'' of
                Inl e \<Rightarrow> (Inl e, w\<lparr>files := (files w)(S \<mapsto> srt),
                             trace := trace w @ [EvJson2Srt fl S, EvSrt2Ass S out ''movie'']\<rparr>)
              | Inr ass \<Rightarrow> (Inr (), w\<lparr>files := ((files w)(S \<mapsto> srt, out \<mapsto> ass))(S := None),
                             trace := trace w @ [EvJson2Srt fl S, EvSrt2Ass S out ''movie'', EvRemove S]\<rparr>))))"
  by (simp add: export_ass_from_json_def json2srt_def srt2ass_def io_defs Let_def
      split: option.splits sum.splits)

lemma Danmaku2ASS_cases:
  "Danmaku2ASS env a w =
     (let w1 = w\<lparr>trace := trace w @ [EvDanmaku2ASS a]\<rparr> in
      if stage_width a \<le> 0 \<or> stage_height a \<le> 0 then (Inl StageSizeError, w1)
      else
        (case files w (input_files a) of
           None \<Rightarrow> (Inl FileNotFoundError, w1)
         | Some xml \<Rightarrow>
            (case layout_and_emit env a xml of
               Inl e \<Rightarrow> (Inl e, w1)
             | Inr ass \<Rightarrow> (Inr (), w1\<lparr>files := (files w)(output_file a \<mapsto> ass)\<rparr>))))"
  by (simp add: Danmaku2ASS_def io_defs Let_def split: option.splits sum.splits)

lemma Danmaku2ASS_trace:
  "trace (snd (Danmaku2ASS env a w)) = trace w @ [EvDanmaku2ASS a]"
  by (simp add: Danmaku2ASS_cases Let_def split: option.splits sum.splits)

lemma Danmaku2ASS_dom:
  "p \<in> dom (files w) \<Longrightarrow> p \<in> dom (files (snd (Danmaku2ASS env a w)))"
  by (auto simp add: Danmaku2ASS_cases Let_def split: option.splits sum.splits)

lemma export_ass_from_xml_trace:
  "trace (snd (export_ass_from_xml env fl out stage fn fs al ft st w)) =
     trace w @ [EvDanmaku2ASS \<lparr>input_files = fl, input_format = ''Bilibili'', output_file = out,
        stage_width = fst stage, stage_height = snd stage, reserve_blank = 0, font_face = fn,
        font_size = fs, text_opacity = al, duration_marquee = ft, duration_still = st\<rparr>]"
  by (simp add: export_ass_from_xml_def Danmaku2ASS_trace)

lemma export_ass_from_xml_dom:
  "p \<in> dom (files w) \<Longrightarrow>
   p \<in> dom (files (snd (export_ass_from_xml env fl out stage fn fs al ft st w)))"
  unfolding export_ass_from_xml_def by (rule Danmaku2ASS_dom)

subsection \<open>Retrieval leaves the files alone\<close>

lemma retrieval_only_return: "retrieval_only (io_return x)"
  by (simp add: retrieval_only_def io_return_def)

lemma retrieval_only_raise: "retrieval_only (io_raise e)"
  by (simp add: retrieval_only_def io_raise_def)

lemma retrieval_only_lift: "retrieval_only (lift r)"
  by (simp add: retrieval_only_def lift_def)

lemma retrieval_only_emit: "is_retrieval ev \<Longrightarrow> retrieval_only (emit ev)"
  by (simp add: retrieval_only_def emit_def)

lemma retrieval_only_bind:
  assumes "retrieval_only m" and "\<And>x. retrieval_only (k x)"
  shows "retrieval_only (io_bind m k)"
  unfolding retrieval_only_def
proof (intro allI)
  fix w
  obtain r w1 where m: "m w = (r, w1)" by (cases "m w")
  from assms(1) m obtain es where
    1: "files w1 = files w" "trace w1 = trace w @ es" "list_all is_retrieval es"
    unfolding retrieval_only_def by (metis snd_conv)
  show "files (snd (io_bind m k w)) = files w \<and>
        (\<exists>es. trace (snd (io_bind m k w)) = trace w @ es \<and> list_all is_retrieval es)"
  proof (cases r)
    case (Inl e)
    with m 1 show ?thesis by (auto simp: io_bind_def)
  next
    case (Inr x)
    from assms(2) [of x] obtain es' where
      2: "files (snd (k x w1)) = files w1" "trace (snd (k x w1)) = trace w1 @ es'"
         "list_all is_retrieval es'"
      unfolding retrieval_only_def by blast
    have "io_bind m k w = k x w1"
      using m Inr by (simp add: io_bind_def)
    with 1 2 show ?thesis by auto
  qed
qed

lemma retrieval_only_await: "is_retrieval ev \<Longrightarrow> retrieval_only (await ev r)"
  unfolding await_def
  by (intro retrieval_only_bind retrieval_only_emit retrieval_only_lift)

lemma retrieval_only_resolve_cid: "retrieval_only (resolve_cid v page cid)"
  unfolding resolve_cid_def
  by (auto intro!: retrieval_only_bind retrieval_only_return retrieval_only_raise
      retrieval_only_await split: option.splits)

lemma retrieval_only_stage_size: "retrieval_only (stage_size_of_video v)"
  unfolding stage_size_of_video_def Let_def
  by (auto intro!: retrieval_only_bind retrieval_only_return retrieval_only_raise
      retrieval_only_emit split: option.splits)

lemma retrieval_only_dispatch_xml: "retrieval_only (dispatch_danmaku_xml v page cid)"
  unfolding dispatch_danmaku_xml_def
  by (auto intro!: retrieval_only_bind retrieval_only_return retrieval_only_raise
      retrieval_only_await retrieval_only_resolve_cid retrieval_only_stage_size)

lemma retrieval_only_dispatch_danmakus: "retrieval_only (dispatch_danmakus v page cid date)"
  unfolding dispatch_danmakus_def
  by (auto intro!: retrieval_only_bind retrieval_only_return retrieval_only_raise
      retrieval_only_await retrieval_only_resolve_cid retrieval_only_stage_size)

lemma retrieval_then_convert:
  fixes P :: "((int \<times> int) \<times> 'a) io" and tmp f env out fn fs al ft st w
  assumes "retrieval_only P"
  defines "r \<equiv> io_bind P (\<lambda>(stage, x).
      io_bind (write_file tmp (f x)) (\<lambda>_. export_ass_from_xml env tmp out stage fn fs al ft st)) w"
  shows "EvRemove p \<notin> set (drop (length (trace w)) (trace (snd r)))"
    and "EvDanmaku2ASS a \<in> set (drop (length (trace w)) (trace (snd r))) \<Longrightarrow>
         tmp \<in> dom (files (snd r))"
proof -
  obtain q w1 where P: "P w = (q, w1)" by (cases "P w")
  from assms(1) P obtain es where
    1: "files w1 = files w" "trace w1 = trace w @ es" "list_all is_retrieval es"
    unfolding retrieval_only_def by (metis snd_conv)
  have nr: "EvRemove p \<notin> set es" and nd: "EvDanmaku2ASS a \<notin> set es"
    using 1(3) by (auto simp: list_all_iff)
  show "EvRemove p \<notin> set (drop (length (trace w)) (trace (snd r)))"
    using P 1 nr
    by (cases q) (auto simp: r_def io_bind_def write_file_def export_ass_from_xml_trace)
  show "tmp \<in> dom (files (snd r))"
    if d: "EvDanmaku2ASS a \<in> set (drop (length (trace w)) (trace (snd r)))"
  proof (cases q)
    case (Inl e)
    with P 1 nd d show ?thesis by (simp add: r_def io_bind_def)
  next
    case (Inr x)
    obtain stage y where x: "x = (stage, y)" by (cases x)
    have "r = export_ass_from_xml env tmp out stage fn fs al ft st
                (w1\<lparr>files := (files w1)(tmp \<mapsto> f y)\<rparr>)"
      using P Inr x by (simp add: r_def io_bind_def write_file_def)
    then show ?thesis
      by (simp only:) (rule export_ass_from_xml_dom, simp)
  qed
qed

lemma protobuf_date_check:
  "make_ass_file_danmakus_protobuf env v page out cid cred date fn fs al ft st w =
     (if date_check_passes cred date then
        io_bind (dispatch_danmakus v page cid date) (\<lambda>(stage_size, danmakus).
        io_bind
          (write_file (danmaku_temp env) (''<i>'' @ concat (map to_xml danmakus) @ ''</i>'')) (\<lambda>_.
        export_ass_from_xml env (danmaku_temp env) out stage_size fn fs al ft st)) w
      else
        (Inl (case cred of None \<Rightarrow> AttributeError
              | Some c \<Rightarrow> (case raise_for_no_sessdata c of Inl e \<Rightarrow> e | Inr u \<Rightarrow> ArgsException)), w))"
  by (auto simp: make_ass_file_danmakus_protobuf_def date_check_passes_def io_bind_def
      io_return_def io_raise_def lift_def split: option.splits sum.splits)

lemma xml_wrapper_no_remove:
  "EvRemove p \<notin> set (drop (length (trace w))
      (trace (snd (make_ass_file_danmakus_xml env v page out cid fn fs al ft st w))))"
  unfolding make_ass_file_danmakus_xml_def
  by (rule retrieval_then_convert(1) [where f = "\<lambda>x. x"]) (rule retrieval_only_dispatch_xml)

lemma xml_wrapper_temp:
  "EvDanmaku2ASS a \<in> set (drop (length (trace w))
      (trace (snd (make_ass_file_danmakus_xml env v page out cid fn fs al ft st w)))) \<Longrightarrow>
   danmaku_temp env \<in> dom (files (snd (make_ass_file_danmakus_xml env v page out cid fn fs al ft st w)))"
  unfolding make_ass_file_danmakus_xml_def
  by (rule retrieval_then_convert(2) [where f = "\<lambda>x. x"]) (rule retrieval_only_dispatch_xml)

lemma protobuf_wrapper_no_remove:
  "EvRemove p \<notin> set (drop (length (trace w))
      (trace (snd (make_ass_file_danmakus_protobuf env v page out cid cred date fn fs al ft st w))))"
proof (cases "date_check_passes cred date")
  case True
  then show ?thesis
    unfolding protobuf_date_check
    by (simp only: if_True)
      (rule retrieval_then_convert(1)
        [where f = "\<lambda>ds. ''<i>'' @ concat (map to_xml ds) @ ''</i>''"],
       rule retrieval_only_dispatch_danmakus)
next
  case False
  then show ?thesis by (simp add: protobuf_date_check)
qed

lemma protobuf_wrapper_temp:
  assumes "EvDanmaku2ASS a \<in> set (drop (length (trace w))
      (trace (snd (make_ass_file_danmakus_protobuf env v page out cid cred date fn fs al ft st w))))"
  shows "danmaku_temp env \<in> dom (files (snd
      (make_ass_file_danmakus_protobuf env v page out cid cred date fn fs al ft st w)))"
proof (cases "date_check_passes cred date")
  case True
  with assms show ?thesis
    unfolding protobuf_date_check
    by (simp only: if_True)
      (rule retrieval_then_convert(2)
        [where f = "\<lambda>ds. ''<i>'' @ concat (map to_xml ds) @ ''</i>''"],
       rule retrieval_only_dispatch_danmakus)
next
  case False
  with assms show ?thesis by (simp add: protobuf_date_check)
qed

subsection \<open>The subtitle loop\<close>




lemma subtitle_loop_success:
  "subtitle_loop env tracks out name w = (Inr (), w') \<Longrightarrow>
   \<exists>content w1. files w1 = files w \<and>
     export_ass_from_json env (gettempdir env @ ''/subtitle.json'') out
       (w1\<lparr>files := (files w1)(gettempdir env @ ''/subtitle.json'' \<mapsto> content)\<rparr>) = (Inr (), w')"
proof (induction tracks)
  case Nil
  then show ?case by (simp add: io_defs)
next
  case (Cons t tracks)
  show ?case
  proof (cases "lan_doc t = name")
    case True
    define w1 where "w1 = w\<lparr>trace := trace w @ [EvHttpGet (subtitle_url t)]\<rparr>"
    from True Cons.prems obtain content where
      "export_ass_from_json env (gettempdir env @ ''/subtitle.json'') out
         (w1\<lparr>files := (files w1)(gettempdir env @ ''/subtitle.json'' \<mapsto> content)\<rparr>) = (Inr (), w')"
      by (auto simp: io_defs Let_def w1_def split: sum.splits)
    moreover have "files w1 = files w"
      by (simp add: w1_def)
    ultimately show ?thesis by blast
  next
    case False
    with Cons show ?thesis by simp
  qed
qed

lemma subtitle_json_left:
  assumes "make_ass_file_subtitle env v out name cred w = (Inr (), w')"
    and "str_replace ''.ass'' ''.srt'' out \<noteq> gettempdir env @ ''/subtitle.json''"
  shows "gettempdir env @ ''/subtitle.json'' \<in> dom (files w')"
proof -
  from assms(1) obtain tracks w1 where
    "subtitle_loop env tracks out name w1 = (Inr (), w')"
    by (auto simp: make_ass_file_subtitle_def io_defs split: sum.splits option.splits)
  from subtitle_loop_success [OF this] obtain content w2 where
    "export_ass_from_json env (gettempdir env @ ''/subtitle.json'') out
       (w2\<lparr>files := (files w2)(gettempdir env @ ''/subtitle.json'' \<mapsto> content)\<rparr>) = (Inr (), w')"
    by blast
  then show ?thesis
    using assms(2)
    by (auto simp: export_ass_from_json_cases Let_def split: sum.splits if_splits)
qed

lemma stage_size_of_video_fallback:
  "get_info v = Inl e \<Longrightarrow>
   stage_size_of_video v w = (Inr (1440, 1080), w\<lparr>trace := trace w @ [EvGetInfo]\<rparr>)"
  by (simp add: stage_size_of_video_def fallback_info_def io_defs)

section \<open>The claims\<close>




text \<open>
  C4. Every call of \<open>export_ass_from_json\<close> starts with \<open>json2srt\<close> from the JSON file to
  the intermediate path (the output path with \<^verbatim>\<open>.ass\<close> replaced by \<^verbatim>\<open>.srt\<close>); the calls it
  makes are an initial part of: \<open>json2srt\<close>, then \<open>srt2ass\<close> from the intermediate path to
  the output path with the style \<^verbatim>\<open>movie\<close>, then the removal of the intermediate file.
  \<open>srt2ass\<close> runs only when \<open>json2srt\<close> has completed, and when the call returns the ASS
  text is the SRT-to-ASS transformation of the SRT text that the JSON was converted to:
  the JSON is never given to the ASS converter.
\<close>

theorem export_ass_from_json_two_stages:
  fixes env fl out w
  defines "S \<equiv> str_replace ''.ass'' ''.srt'' out"
    and "r \<equiv> export_ass_from_json env fl out w"
  defines "es \<equiv> drop (length (trace w)) (trace (snd r))"
  shows "trace (snd r) = trace w @ es \<and> es \<noteq> [] \<and> hd es = EvJson2Srt fl S \<and>
         prefix es [EvJson2Srt fl S, EvSrt2Ass S out ''movie'', EvRemove S] \<and>
         (EvSrt2Ass S out ''movie'' \<in> set es \<longrightarrow>
            (\<exists>doc srt. files w fl = Some doc \<and> json2srt_text env doc = Inr srt)) \<and>
         (fst r = Inr () \<longrightarrow>
            (\<exists>doc srt ass. files w fl = Some doc \<and> json2srt_text env doc = Inr srt \<and>
               srt2ass_text env srt ''movie'' = Inr ass \<and>
               es = [EvJson2Srt fl S, EvSrt2Ass S out ''movie'', EvRemove S] \<and>
               (S \<noteq> out \<longrightarrow> files (snd r) out = Some ass)))"
  unfolding es_def r_def S_def export_ass_from_json_cases Let_def
  by (simp split: option.splits sum.splits)

text \<open>A JSON file converted to \<^verbatim>\<open>out.ass\<close>: the three calls in order, and the ASS text.\<close>

theorem export_ass_from_json_two_stages_witness:
  "fst (export_ass_from_json env0 ''/tmp/in.json'' ''out.ass'' w_json) = Inr () \<and>
   trace (snd (export_ass_from_json env0 ''/tmp/in.json'' ''out.ass'' w_json)) =
     [EvJson2Srt ''/tmp/in.json'' ''out.srt'', EvSrt2Ass ''out.srt'' ''out.ass'' ''movie'',
      EvRemove ''out.srt''] \<and>
   files (snd (export_ass_from_json env0 ''/tmp/in.json'' ''out.ass'' w_json)) ''out.ass'' =
     Some ''ass of srt of [captions]''"
  using export_ass_from_json_two_stages [of env0 "''/tmp/in.json''" "''out.ass''" w_json]
  by (simp add: export_ass_from_json_cases env0_def w_json_def Let_def)

text \<open>
  C8. When the output path of \<open>export_ass_from_json\<close> does not contain \<^verbatim>\<open>.ass\<close>, the
  intermediate SRT path is the output path itself, and the last step of a call that
  returns is the removal of the file at the output path. After a call that returns, a
  file exists at the output path if and only if the output path contains \<^verbatim>\<open>.ass\<close>.
\<close>

theorem export_ass_from_json_output_persists:
  fixes env fl out w
  defines "r \<equiv> export_ass_from_json env fl out w"
  shows "(\<not> contains ''.ass'' out \<longrightarrow> str_replace ''.ass'' ''.srt'' out = out) \<and>
         (fst r = Inr () \<longrightarrow> (out \<in> dom (files (snd r)) \<longleftrightarrow> contains ''.ass'' out)) \<and>
         (fst r = Inr () \<and> \<not> contains ''.ass'' out \<longrightarrow> last (trace (snd r)) = EvRemove out)"
proof -
  have a: "\<not> contains ''.ass'' out \<Longrightarrow> str_replace ''.ass'' ''.srt'' out = out"
    by (simp add: srt_path_eq_iff)
  have b: "contains ''.ass'' out \<Longrightarrow> str_replace ''.ass'' ''.srt'' out \<noteq> out"
    by (simp add: srt_path_eq_iff)
  show ?thesis
    unfolding r_def export_ass_from_json_cases Let_def
    using a b by (cases "contains ''.ass'' out") (auto split: option.splits sum.splits)
qed

text \<open>
  The same JSON file converted to \<^verbatim>\<open>out.txt\<close>: the call returns and leaves no file there;
  converted to \<^verbatim>\<open>out.ass\<close>, the file is there.
\<close>

theorem export_ass_from_json_output_persists_witness:
  "\<not> contains ''.ass'' ''out.txt'' \<and> str_replace ''.ass'' ''.srt'' ''out.txt'' = ''out.txt'' \<and>
   fst (export_ass_from_json env0 ''/tmp/in.json'' ''out.txt'' w_json) = Inr () \<and>
   ''out.txt'' \<notin> dom (files (snd (export_ass_from_json env0 ''/tmp/in.json'' ''out.txt'' w_json))) \<and>
   last (trace (snd (export_ass_from_json env0 ''/tmp/in.json'' ''out.txt'' w_json))) =
     EvRemove ''out.txt'' \<and>
   contains ''.ass'' ''out.ass'' \<and>
   fst (export_ass_from_json env0 ''/tmp/in.json'' ''out.ass'' w_json) = Inr () \<and>
   ''out.ass'' \<in> dom (files (snd (export_ass_from_json env0 ''/tmp/in.json'' ''out.ass'' w_json)))"
proof -
  have n: "\<not> contains ''.ass'' ''out.txt''" and y: "contains ''.ass'' ''out.ass''"
    by simp_all
  have 1: "fst (export_ass_from_json env0 ''/tmp/in.json'' ''out.txt'' w_json) = Inr ()"
    and 2: "fst (export_ass_from_json env0 ''/tmp/in.json'' ''out.ass'' w_json) = Inr ()"
    by (simp_all add: export_ass_from_json_cases env0_def w_json_def Let_def)
  note t = export_ass_from_json_output_persists [of "''out.txt''" env0 "''/tmp/in.json''" w_json]
  note a = export_ass_from_json_output_persists [of "''out.ass''" env0 "''/tmp/in.json''" w_json]
  from t a n y 1 2 show ?thesis by blast
qed

text \<open>
  C5 (against the core as the spec describes it). For every stage size whose width or
  height is zero or negative, \<open>export_ass_from_xml\<close>, which hands the two components of
  the stage size to the core unchanged and has no check of its own, raises the core's
  rejection; no file is written or changed.
\<close>

theorem export_ass_from_xml_rejects_invalid_stage:
  assumes "fst stage \<le> 0 \<or> snd stage \<le> 0"
  shows "fst (export_ass_from_xml env fl out stage fn fs al ft st w) = Inl StageSizeError \<and>
         files (snd (export_ass_from_xml env fl out stage fn fs al ft st w)) = files w"
  using assms
  by (auto simp: export_ass_from_xml_def Danmaku2ASS_cases Let_def)

text \<open>A stage of width 0: rejected, and nothing at the output path.\<close>

theorem export_ass_from_xml_rejects_invalid_stage_witness:
  "(fst (0::int, 1080::int) \<le> 0 \<or> snd (0::int, 1080::int) \<le> 0) \<and>
   fst (export_ass_from_xml env0 ''/tmp/in.xml'' ''out.ass'' (0, 1080) ''Simsun'' 25 1 7 5 w_xml) =
     Inl StageSizeError \<and>
   files (snd (export_ass_from_xml env0 ''/tmp/in.xml'' ''out.ass'' (0, 1080) ''Simsun'' 25 1 7 5
     w_xml)) ''out.ass'' = None"
proof -
  have h: "fst (0::int, 1080::int) \<le> 0 \<or> snd (0::int, 1080::int) \<le> 0" by simp
  from export_ass_from_xml_rejects_invalid_stage
    [OF h, of env0 "''/tmp/in.xml''" "''out.ass''" "''Simsun''" 25 1 7 5 w_xml]
  show ?thesis using h by (simp add: w_xml_def)
qed

text \<open>
  C6, as the code has it. \<open>export_ass_from_xml\<close> calls the core once, with the stage width
  and height, the font name, the font size, the opacity, the scroll duration and the
  still duration of its caller; the blank reserve has no parameter and is always 0.
\<close>

theorem export_ass_from_xml_configuration:
  "\<exists>a. trace (snd (export_ass_from_xml env fl out stage fn fs al ft st w)) =
          trace w @ [EvDanmaku2ASS a] \<and>
        input_files a = fl \<and> output_file a = out \<and>
        stage_width a = fst stage \<and> stage_height a = snd stage \<and> font_face a = fn \<and>
        font_size a = fs \<and> text_opacity a = al \<and> duration_marquee a = ft \<and>
        duration_still a = st \<and> reserve_blank a = 0"
  by (simp add: export_ass_from_xml_trace)

text \<open>No arguments of \<open>export_ass_from_xml\<close> give the core a blank reserve of 10 pixels.\<close>

theorem blank_reserve_not_caller_supplied:
  "\<not> (\<exists>fl out stage fn fs al ft st a.
        EvDanmaku2ASS a \<in> set (trace (snd (export_ass_from_xml env0 fl out stage fn fs al ft st w0))) \<and>
        reserve_blank a = 10)"
  by (auto simp: export_ass_from_xml_trace w0_def)

text \<open>
  C3. For a \<open>Video\<close> (an \<open>Episode\<close> included) whose \<open>get_info\<close> raises, both danmaku
  wrappers behave exactly as if \<open>get_info\<close> had answered the dimension 1440 by 1080: the
  exception is swallowed. Whenever the cid is resolved and the danmaku data is retrieved
  (and, for the protobuf wrapper, the check of the credential lets the call go on), the
  call reaches \<open>export_ass_from_xml\<close> with the stage size (1440, 1080); and no other
  stage size can come out of the dispatch block.
\<close>

theorem metadata_failure_uses_fallback_stage:
  assumes "isinstance_Video v" and "get_info v = Inl e"
  shows "make_ass_file_danmakus_xml env v page out cid fn fs al ft st w =
           make_ass_file_danmakus_xml env (v\<lparr>get_info := Inr fallback_info\<rparr>) page out cid
             fn fs al ft st w \<and>
         make_ass_file_danmakus_protobuf env v page out cid cred date fn fs al ft st w =
           make_ass_file_danmakus_protobuf env (v\<lparr>get_info := Inr fallback_info\<rparr>) page out
             cid cred date fn fs al ft st w \<and>
         (\<forall>c w1 xml. resolve_cid v page cid w = (Inr c, w1) \<and>
            get_danmaku_xml v (if isinstance_Episode v then None else c) = Inr xml \<longrightarrow>
            make_ass_file_danmakus_xml env v page out cid fn fs al ft st w =
              export_ass_from_xml env (danmaku_temp env) out (1440, 1080) fn fs al ft st
                (w1\<lparr>trace := trace w1 @
                      [EvGetInfo, EvGetDanmakuXml (if isinstance_Episode v then None else c)],
                    files := (files w1)(danmaku_temp env \<mapsto> xml)\<rparr>)) \<and>
         (\<forall>c w1 ds. date_check_passes cred date \<and> resolve_cid v page cid w = (Inr c, w1) \<and>
            get_danmakus v (if isinstance_Episode v then None else c)
               (if isinstance_Episode v then None else date) = Inr ds \<longrightarrow>
            make_ass_file_danmakus_protobuf env v page out cid cred date fn fs al ft st w =
              export_ass_from_xml env (danmaku_temp env) out (1440, 1080) fn fs al ft st
                (w1\<lparr>trace := trace w1 @
                      [EvGetInfo, EvGetDanmakus (if isinstance_Episode v then None else c)
                         (if isinstance_Episode v then None else date)],
                    files := (files w1)(danmaku_temp env \<mapsto>
                       ''<i>'' @ concat (map to_xml ds) @ ''</i>'')\<rparr>)) \<and>
         (\<forall>stage x w'. dispatch_danmaku_xml v page cid w = (Inr (stage, x), w') \<longrightarrow>
            stage = (1440, 1080)) \<and>
         (\<forall>stage x w'. dispatch_danmakus v page cid date w = (Inr (stage, x), w') \<longrightarrow>
            stage = (1440, 1080))"
proof -
  have dx: "dispatch_danmaku_xml (v\<lparr>get_info := Inr fallback_info\<rparr>) page cid =
            dispatch_danmaku_xml v page cid"
    using assms(2)
    by (simp add: dispatch_danmaku_xml_def stage_size_of_video_def resolve_cid_def class_defs
        cong: option.case_cong if_cong)
  have dp: "dispatch_danmakus (v\<lparr>get_info := Inr fallback_info\<rparr>) page cid date =
            dispatch_danmakus v page cid date"
    using assms(2)
    by (simp add: dispatch_danmakus_def stage_size_of_video_def resolve_cid_def class_defs
        cong: option.case_cong if_cong)
  have a1: "make_ass_file_danmakus_xml env v page out cid fn fs al ft st w =
           make_ass_file_danmakus_xml env (v\<lparr>get_info := Inr fallback_info\<rparr>) page out cid
             fn fs al ft st w"
    by (simp add: make_ass_file_danmakus_xml_def dx)
  have a2: "make_ass_file_danmakus_protobuf env v page out cid cred date fn fs al ft st w =
           make_ass_file_danmakus_protobuf env (v\<lparr>get_info := Inr fallback_info\<rparr>) page out
             cid cred date fn fs al ft st w"
    by (simp add: make_ass_file_danmakus_protobuf_def dp)
  have b1: "make_ass_file_danmakus_xml env v page out cid fn fs al ft st w =
              export_ass_from_xml env (danmaku_temp env) out (1440, 1080) fn fs al ft st
                (w1\<lparr>trace := trace w1 @
                      [EvGetInfo, EvGetDanmakuXml (if isinstance_Episode v then None else c)],
                    files := (files w1)(danmaku_temp env \<mapsto> xml)\<rparr>)"
    if "resolve_cid v page cid w = (Inr c, w1)"
      "get_danmaku_xml v (if isinstance_Episode v then None else c) = Inr xml"
    for c w1 xml
    using assms that
    by (auto simp: make_ass_file_danmakus_xml_def dispatch_danmaku_xml_def
        stage_size_of_video_fallback io_defs)
  have b2: "make_ass_file_danmakus_protobuf env v page out cid cred date fn fs al ft st w =
              export_ass_from_xml env (danmaku_temp env) out (1440, 1080) fn fs al ft st
                (w1\<lparr>trace := trace w1 @
                      [EvGetInfo, EvGetDanmakus (if isinstance_Episode v then None else c)
                         (if isinstance_Episode v then None else date)],
                    files := (files w1)(danmaku_temp env \<mapsto>
                       ''<i>'' @ concat (map to_xml ds) @ ''</i>'')\<rparr>)"
    if "date_check_passes cred date" "resolve_cid v page cid w = (Inr c, w1)"
      "get_danmakus v (if isinstance_Episode v then None else c)
               (if isinstance_Episode v then None else date) = Inr ds"
    for c w1 ds
    using assms that
    by (auto simp: protobuf_date_check dispatch_danmakus_def
        stage_size_of_video_fallback io_defs)
  have c1: "stage = (1440, 1080)"
    if "dispatch_danmaku_xml v page cid w = (Inr (stage, x), w')" for stage x w'
    using assms that
    by (auto simp: dispatch_danmaku_xml_def stage_size_of_video_fallback io_defs
        split: prod.splits sum.splits if_splits)
  have c2: "stage = (1440, 1080)"
    if "dispatch_danmakus v page cid date w = (Inr (stage, x), w')" for stage x w'
    using assms that
    by (auto simp: dispatch_danmakus_def stage_size_of_video_fallback io_defs
        split: prod.splits sum.splits if_splits)
  from a1 a2 b1 b2 c1 c2 show ?thesis by blast
qed

text \<open>
  The video whose metadata is unreachable, asked for page 1: both wrappers return, and
  the core was called with the stage 1440 by 1080.
\<close>

theorem metadata_failure_uses_fallback_stage_witness:
  "isinstance_Video video_offline \<and>
   get_info video_offline = Inl (OtherError ''NetworkException'') \<and>
   resolve_cid video_offline (Some 1) None w0 =
     (Inr (Some 101), w0\<lparr>trace := [EvGetPageIdByIndex 1]\<rparr>) \<and>
   fst (make_ass_file_danmakus_xml env0 video_offline (Some 1) ''out.ass'' None
     ''Simsun'' 25 1 7 5 w0) = Inr () \<and>
   trace (snd (make_ass_file_danmakus_xml env0 video_offline (Some 1) ''out.ass'' None
     ''Simsun'' 25 1 7 5 w0)) =
     [EvGetPageIdByIndex 1, EvGetInfo, EvGetDanmakuXml (Some 101),
      EvDanmaku2ASS \<lparr>input_files = ''/tmp/danmaku_temp.xml'', input_format = ''Bilibili'',
        output_file = ''out.ass'', stage_width = 1440, stage_height = 1080, reserve_blank = 0,
        font_face = ''Simsun'', font_size = 25, text_opacity = 1, duration_marquee = 7,
        duration_still = 5\<rparr>] \<and>
   fst (make_ass_file_danmakus_protobuf env0 video_offline (Some 1) ''out.ass'' None None None
     ''Simsun'' 25 1 7 5 w0) = Inr () \<and>
   trace (snd (make_ass_file_danmakus_protobuf env0 video_offline (Some 1) ''out.ass'' None None
     None ''Simsun'' 25 1 7 5 w0)) =
     [EvGetPageIdByIndex 1, EvGetInfo, EvGetDanmakus (Some 101) None,
      EvDanmaku2ASS \<lparr>input_files = ''/tmp/danmaku_temp.xml'', input_format = ''Bilibili'',
        output_file = ''out.ass'', stage_width = 1440, stage_height = 1080, reserve_blank = 0,
        font_face = ''Simsun'', font_size = 25, text_opacity = 1, duration_marquee = 7,
        duration_still = 5\<rparr>]"
proof -
  have v: "isinstance_Video video_offline"
    by (simp add: isinstance_Video_def video_offline_def video_online_def)
  have ne: "\<not> isinstance_Episode video_offline"
    by (simp add: isinstance_Episode_def video_offline_def video_online_def)
  have g: "get_info video_offline = Inl (OtherError ''NetworkException'')"
    by (simp add: video_offline_def)
  have c: "resolve_cid video_offline (Some 1) None w0 =
     (Inr (Some 101), w0\<lparr>trace := [EvGetPageIdByIndex 1]\<rparr>)"
    by (simp add: resolve_cid_def isinstance_Episode_def video_offline_def video_online_def
        w0_def io_defs)
  have x: "get_danmaku_xml video_offline (Some 101) = Inr ''<i><d>a</d></i>''"
    by (simp add: video_offline_def video_online_def)
  have d: "get_danmakus video_offline (Some 101) None =
     Inr [\<lparr>to_xml = ''<d>a</d>''\<rparr>, \<lparr>to_xml = ''<d>b</d>''\<rparr>]"
    by (simp add: video_offline_def video_online_def)
  have p: "date_check_passes None None"
    by (simp add: date_check_passes_def)
  note m = metadata_failure_uses_fallback_stage [OF v g, of env0 "Some 1" "''out.ass''" None
      "''Simsun''" 25 1 7 5 w0 None None]
  note mx = m [THEN conjunct2, THEN conjunct2, THEN conjunct1, rule_format,
      of "Some 101" "w0\<lparr>trace := [EvGetPageIdByIndex 1]\<rparr>" "''<i><d>a</d></i>''"]
  note mp = m [THEN conjunct2, THEN conjunct2, THEN conjunct2, THEN conjunct1, rule_format,
      of "Some 101" "w0\<lparr>trace := [EvGetPageIdByIndex 1]\<rparr>"
         "[\<lparr>to_xml = ''<d>a</d>''\<rparr>, \<lparr>to_xml = ''<d>b</d>''\<rparr>]"]
  have 1: "make_ass_file_danmakus_xml env0 video_offline (Some 1) ''out.ass'' None
       ''Simsun'' 25 1 7 5 w0 =
     export_ass_from_xml env0 (danmaku_temp env0) ''out.ass'' (1440, 1080) ''Simsun'' 25 1 7 5
       (w0\<lparr>trace := [EvGetPageIdByIndex 1, EvGetInfo, EvGetDanmakuXml (Some 101)],
           files := (files w0)(danmaku_temp env0 \<mapsto> ''<i><d>a</d></i>'')\<rparr>)"
    using mx c x ne by simp
  have 2: "make_ass_file_danmakus_protobuf env0 video_offline (Some 1) ''out.ass'' None None None
       ''Simsun'' 25 1 7 5 w0 =
     export_ass_from_xml env0 (danmaku_temp env0) ''out.ass'' (1440, 1080) ''Simsun'' 25 1 7 5
       (w0\<lparr>trace := [EvGetPageIdByIndex 1, EvGetInfo, EvGetDanmakus (Some 101) None],
           files := (files w0)(danmaku_temp env0 \<mapsto> ''<i><d>a</d><d>b</d></i>'')\<rparr>)"
    using mp c d ne p by simp
  have 3: "fst (make_ass_file_danmakus_xml env0 video_offline (Some 1) ''out.ass'' None
     ''Simsun'' 25 1 7 5 w0) = Inr ()"
    unfolding 1
    by (simp add: export_ass_from_xml_def Danmaku2ASS_cases danmaku_temp_def env0_def Let_def)
  have 4: "fst (make_ass_file_danmakus_protobuf env0 video_offline (Some 1) ''out.ass'' None None
     None ''Simsun'' 25 1 7 5 w0) = Inr ()"
    unfolding 2
    by (simp add: export_ass_from_xml_def Danmaku2ASS_cases danmaku_temp_def env0_def Let_def)
  have 5: "trace (snd (make_ass_file_danmakus_xml env0 video_offline (Some 1) ''out.ass'' None
     ''Simsun'' 25 1 7 5 w0)) =
     [EvGetPageIdByIndex 1, EvGetInfo, EvGetDanmakuXml (Some 101),
      EvDanmaku2ASS \<lparr>input_files = ''/tmp/danmaku_temp.xml'', input_format = ''Bilibili'',
        output_file = ''out.ass'', stage_width = 1440, stage_height = 1080, reserve_blank = 0,
        font_face = ''Simsun'', font_size = 25, text_opacity = 1, duration_marquee = 7,
        duration_still = 5\<rparr>]"
    unfolding 1 by (simp add: export_ass_from_xml_trace danmaku_temp_def env0_def)
  have 6: "trace (snd (make_ass_file_danmakus_protobuf env0 video_offline (Some 1) ''out.ass''
     None None None ''Simsun'' 25 1 7 5 w0)) =
     [EvGetPageIdByIndex 1, EvGetInfo, EvGetDanmakus (Some 101) None,
      EvDanmaku2ASS \<lparr>input_files = ''/tmp/danmaku_temp.xml'', input_format = ''Bilibili'',
        output_file = ''out.ass'', stage_width = 1440, stage_height = 1080, reserve_blank = 0,
        font_face = ''Simsun'', font_size = 25, text_opacity = 1, duration_marquee = 7,
        duration_still = 5\<rparr>]"
    unfolding 2 by (simp add: export_ass_from_xml_trace danmaku_temp_def env0_def)
  from v g c 3 4 5 6 show ?thesis by (intro conjI)
qed




text \<open>
  C10. For a \<open>CheeseVideo\<close> both danmaku wrappers ask the object for its danmaku data
  without arguments and, when it answers, enter \<open>export_ass_from_xml\<close> with the stage
  size (1440, 1080). \<open>get_info\<close> is never called: no call of it is traced, and what it
  would answer makes no difference to the outcome.
\<close>

theorem cheese_video_stage_size:
  fixes env v page out cid cred date fn fs al ft st w
  defines "rx \<equiv> make_ass_file_danmakus_xml env v page out cid fn fs al ft st w"
    and "rp \<equiv> make_ass_file_danmakus_protobuf env v page out cid cred date fn fs al ft st w"
  assumes "cls v = CheeseVideo"
  shows "rx = (case get_danmaku_xml v None of
                 Inl e \<Rightarrow> (Inl e, w\<lparr>trace := trace w @ [EvGetDanmakuXml None]\<rparr>)
               | Inr xml \<Rightarrow>
                   export_ass_from_xml env (danmaku_temp env) out (1440, 1080) fn fs al ft st
                     (w\<lparr>trace := trace w @ [EvGetDanmakuXml None],
                        files := (files w)(danmaku_temp env \<mapsto> xml)\<rparr>)) \<and>
         (date_check_passes cred date \<longrightarrow>
          rp = (case get_danmakus v None None of
                 Inl e \<Rightarrow> (Inl e, w\<lparr>trace := trace w @ [EvGetDanmakus None None]\<rparr>)
               | Inr ds \<Rightarrow>
                   export_ass_from_xml env (danmaku_temp env) out (1440, 1080) fn fs al ft st
                     (w\<lparr>trace := trace w @ [EvGetDanmakus None None],
                        files := (files w)(danmaku_temp env \<mapsto>
                          ''<i>'' @ concat (map to_xml ds) @ ''</i>'')\<rparr>))) \<and>
         EvGetInfo \<notin> set (drop (length (trace w)) (trace (snd rx))) \<and>
         EvGetInfo \<notin> set (drop (length (trace w)) (trace (snd rp))) \<and>
         (\<forall>a. EvDanmaku2ASS a \<in> set (drop (length (trace w)) (trace (snd rx))) \<longrightarrow>
            stage_width a = 1440 \<and> stage_height a = 1080) \<and>
         (\<forall>a. EvDanmaku2ASS a \<in> set (drop (length (trace w)) (trace (snd rp))) \<longrightarrow>
            stage_width a = 1440 \<and> stage_height a = 1080) \<and>
         (\<forall>g. make_ass_file_danmakus_xml env (v\<lparr>get_info := g\<rparr>) page out cid fn fs al ft st w =
            rx) \<and>
         (\<forall>g. make_ass_file_danmakus_protobuf env (v\<lparr>get_info := g\<rparr>) page out cid cred date
            fn fs al ft st w = rp)"
proof -
  have dx: "dispatch_danmaku_xml v page cid w =
      (case get_danmaku_xml v None of
         Inl e \<Rightarrow> (Inl e, w\<lparr>trace := trace w @ [EvGetDanmakuXml None]\<rparr>)
       | Inr xml \<Rightarrow> (Inr ((1440, 1080), xml), w\<lparr>trace := trace w @ [EvGetDanmakuXml None]\<rparr>))"
    using assms(3) by (simp add: dispatch_danmaku_xml_def class_defs io_defs split: sum.splits)
  have dp: "dispatch_danmakus v page cid date w =
      (case get_danmakus v None None of
         Inl e \<Rightarrow> (Inl e, w\<lparr>trace := trace w @ [EvGetDanmakus None None]\<rparr>)
       | Inr ds \<Rightarrow> (Inr ((1440, 1080), ds), w\<lparr>trace := trace w @ [EvGetDanmakus None None]\<rparr>))"
    using assms(3) by (simp add: dispatch_danmakus_def class_defs io_defs split: sum.splits)
  have 1: "rx = (case get_danmaku_xml v None of
                 Inl e \<Rightarrow> (Inl e, w\<lparr>trace := trace w @ [EvGetDanmakuXml None]\<rparr>)
               | Inr xml \<Rightarrow>
                   export_ass_from_xml env (danmaku_temp env) out (1440, 1080) fn fs al ft st
                     (w\<lparr>trace := trace w @ [EvGetDanmakuXml None],
                        files := (files w)(danmaku_temp env \<mapsto> xml)\<rparr>))"
    by (simp add: rx_def make_ass_file_danmakus_xml_def io_bind_def write_file_def dx
        split: sum.splits)
  have 2: "rp = (case get_danmakus v None None of
                 Inl e \<Rightarrow> (Inl e, w\<lparr>trace := trace w @ [EvGetDanmakus None None]\<rparr>)
               | Inr ds \<Rightarrow>
                   export_ass_from_xml env (danmaku_temp env) out (1440, 1080) fn fs al ft st
                     (w\<lparr>trace := trace w @ [EvGetDanmakus None None],
                        files := (files w)(danmaku_temp env \<mapsto>
                          ''<i>'' @ concat (map to_xml ds) @ ''</i>'')\<rparr>))"
    if "date_check_passes cred date"
    using that
    by (simp add: rp_def protobuf_date_check io_bind_def write_file_def dp split: sum.splits)
  have 3: "EvGetInfo \<notin> set (drop (length (trace w)) (trace (snd rx)))"
    unfolding 1 by (simp add: export_ass_from_xml_trace split: sum.splits)
  have 5: "stage_width a = 1440 \<and> stage_height a = 1080"
    if "EvDanmaku2ASS a \<in> set (drop (length (trace w)) (trace (snd rx)))" for a
    using that unfolding 1 by (auto simp: export_ass_from_xml_trace split: sum.splits)
  have 46: "EvGetInfo \<notin> set (drop (length (trace w)) (trace (snd rp))) \<and>
         (\<forall>a. EvDanmaku2ASS a \<in> set (drop (length (trace w)) (trace (snd rp))) \<longrightarrow>
            stage_width a = 1440 \<and> stage_height a = 1080)"
  proof (cases "date_check_passes cred date")
    case True
    show ?thesis
      unfolding 2 [OF True] by (auto simp: export_ass_from_xml_trace split: sum.splits)
  next
    case False
    then show ?thesis by (simp add: rp_def protobuf_date_check)
  qed
  have gx: "dispatch_danmaku_xml (v\<lparr>get_info := g\<rparr>) page cid = dispatch_danmaku_xml v page cid"
    for g
    using assms(3) by (simp add: dispatch_danmaku_xml_def class_defs)
  have gp: "dispatch_danmakus (v\<lparr>get_info := g\<rparr>) page cid date = dispatch_danmakus v page cid date"
    for g
    using assms(3) by (simp add: dispatch_danmakus_def class_defs)
  have 7: "make_ass_file_danmakus_xml env (v\<lparr>get_info := g\<rparr>) page out cid fn fs al ft st w = rx"
    for g
    by (simp add: rx_def make_ass_file_danmakus_xml_def gx)
  have 8: "make_ass_file_danmakus_protobuf env (v\<lparr>get_info := g\<rparr>) page out cid cred date
            fn fs al ft st w = rp" for g
    by (simp add: rp_def make_ass_file_danmakus_protobuf_def gp)
  from 1 2 3 5 46 7 8 show ?thesis by blast
qed

text \<open>
  The course video, whose \<open>get_info\<close> would answer 1920 by 1080: the core is called with
  1440 by 1080, and \<open>get_info\<close> is not called.
\<close>

theorem cheese_video_stage_size_witness:
  "cls cheese0 = CheeseVideo \<and>
   get_info cheese0 = Inr info0 \<and> dimension info0 = Some \<lparr>width = 1920, height = 1080\<rparr> \<and>
   fst (make_ass_file_danmakus_xml env0 cheese0 None ''out.ass'' None ''Simsun'' 25 1 7 5 w0) =
     Inr () \<and>
   trace (snd (make_ass_file_danmakus_xml env0 cheese0 None ''out.ass'' None ''Simsun'' 25 1 7 5
     w0)) =
     [EvGetDanmakuXml None,
      EvDanmaku2ASS \<lparr>input_files = ''/tmp/danmaku_temp.xml'', input_format = ''Bilibili'',
        output_file = ''out.ass'', stage_width = 1440, stage_height = 1080, reserve_blank = 0,
        font_face = ''Simsun'', font_size = 25, text_opacity = 1, duration_marquee = 7,
        duration_still = 5\<rparr>]"
proof -
  have c: "cls cheese0 = CheeseVideo" by (simp add: cheese0_def)
  have g: "get_info cheese0 = Inr info0" by (simp add: cheese0_def video_online_def)
  have d: "dimension info0 = Some \<lparr>width = 1920, height = 1080\<rparr>" by (simp add: info0_def)
  have x: "get_danmaku_xml cheese0 None = Inr ''<i><d>a</d></i>''"
    by (simp add: cheese0_def video_online_def)
  note m = cheese_video_stage_size [OF c, of env0 None "''out.ass''" None "''Simsun''" 25 1 7 5 w0,
      THEN conjunct1]
  have 1: "make_ass_file_danmakus_xml env0 cheese0 None ''out.ass'' None ''Simsun'' 25 1 7 5 w0 =
     export_ass_from_xml env0 (danmaku_temp env0) ''out.ass'' (1440, 1080) ''Simsun'' 25 1 7 5
       (w0\<lparr>trace := trace w0 @ [EvGetDanmakuXml None],
           files := (files w0)(danmaku_temp env0 \<mapsto> ''<i><d>a</d></i>'')\<rparr>)"
    using m x by simp
  have 2: "fst (make_ass_file_danmakus_xml env0 cheese0 None ''out.ass'' None ''Simsun'' 25 1 7 5
     w0) = Inr ()"
    unfolding 1
    by (simp add: export_ass_from_xml_def Danmaku2ASS_cases danmaku_temp_def env0_def Let_def)
  have 3: "trace (snd (make_ass_file_danmakus_xml env0 cheese0 None ''out.ass'' None ''Simsun''
     25 1 7 5 w0)) =
     [EvGetDanmakuXml None,
      EvDanmaku2ASS \<lparr>input_files = ''/tmp/danmaku_temp.xml'', input_format = ''Bilibili'',
        output_file = ''out.ass'', stage_width = 1440, stage_height = 1080, reserve_blank = 0,
        font_face = ''Simsun'', font_size = 25, text_opacity = 1, duration_marquee = 7,
        duration_still = 5\<rparr>]"
    unfolding 1 by (simp add: export_ass_from_xml_trace danmaku_temp_def env0_def w0_def)
  from c g d 2 3 show ?thesis by (intro conjI)
qed

text \<open>
  C2, as the code has it. The intermediate SRT file is removed by the last statement of
  \<open>export_ass_from_json\<close>: after a call that returns it does not exist. The two danmaku
  wrappers never remove a file, and once the core has been called, whether it returned
  or raised, the temporary danmaku file is still there when the call ends. After a call
  of \<open>make_ass_file_subtitle\<close> that returns, the temporary subtitle JSON file is still
  there, unless the intermediate SRT path is that very path.
\<close>

theorem temporary_files_after_use:
  fixes env v page out cid cred date fn fs al ft st w fl name
  defines "rx \<equiv> make_ass_file_danmakus_xml env v page out cid fn fs al ft st w"
    and "rp \<equiv> make_ass_file_danmakus_protobuf env v page out cid cred date fn fs al ft st w"
    and "rj \<equiv> export_ass_from_json env fl out w"
    and "rs \<equiv> make_ass_file_subtitle env v out name cred w"
    and "S \<equiv> str_replace ''.ass'' ''.srt'' out"
  shows "(fst rj = Inr () \<longrightarrow> S \<notin> dom (files (snd rj)) \<and> last (trace (snd rj)) = EvRemove S) \<and>
         (\<forall>p. EvRemove p \<notin> set (drop (length (trace w)) (trace (snd rx)))) \<and>
         (\<forall>p. EvRemove p \<notin> set (drop (length (trace w)) (trace (snd rp)))) \<and>
         (\<forall>a. EvDanmaku2ASS a \<in> set (drop (length (trace w)) (trace (snd rx))) \<longrightarrow>
            danmaku_temp env \<in> dom (files (snd rx))) \<and>
         (\<forall>a. EvDanmaku2ASS a \<in> set (drop (length (trace w)) (trace (snd rp))) \<longrightarrow>
            danmaku_temp env \<in> dom (files (snd rp))) \<and>
         (fst rs = Inr () \<and> S \<noteq> gettempdir env @ ''/subtitle.json'' \<longrightarrow>
            gettempdir env @ ''/subtitle.json'' \<in> dom (files (snd rs)))"
proof -
  have j: "fst rj = Inr () \<longrightarrow> S \<notin> dom (files (snd rj)) \<and> last (trace (snd rj)) = EvRemove S"
    unfolding rj_def S_def export_ass_from_json_cases Let_def
    by (simp split: option.splits sum.splits)
  have s: "fst rs = Inr () \<and> S \<noteq> gettempdir env @ ''/subtitle.json'' \<longrightarrow>
            gettempdir env @ ''/subtitle.json'' \<in> dom (files (snd rs))"
    using subtitle_json_left [of env v out name cred w "snd rs"]
    unfolding rs_def S_def by (metis prod.collapse)
  have x: "\<forall>a. EvDanmaku2ASS a \<in> set (drop (length (trace w)) (trace (snd rx))) \<longrightarrow>
            danmaku_temp env \<in> dom (files (snd rx))"
    unfolding rx_def using xml_wrapper_temp by blast
  have p: "\<forall>a. EvDanmaku2ASS a \<in> set (drop (length (trace w)) (trace (snd rp))) \<longrightarrow>
            danmaku_temp env \<in> dom (files (snd rp))"
    unfolding rp_def using protobuf_wrapper_temp by blast
  have nx: "\<forall>p. EvRemove p \<notin> set (drop (length (trace w)) (trace (snd rx)))"
    unfolding rx_def by (simp add: xml_wrapper_no_remove)
  have np: "\<forall>p. EvRemove p \<notin> set (drop (length (trace w)) (trace (snd rp)))"
    unfolding rp_def by (simp add: protobuf_wrapper_no_remove)
  from j nx np x p s show ?thesis by (intro conjI)
qed

text \<open>
  A JSON file converted to \<^verbatim>\<open>out.ass\<close>: the SRT file is gone afterwards. The course video
  converted with a stage that the core accepts: the temporary danmaku file is there
  afterwards.
\<close>

theorem temporary_files_after_use_witness:
  "fst (export_ass_from_json env0 ''/tmp/in.json'' ''out.ass'' w_json) = Inr () \<and>
   ''out.srt'' \<notin> dom (files (snd (export_ass_from_json env0 ''/tmp/in.json'' ''out.ass'' w_json))) \<and>
   EvDanmaku2ASS \<lparr>input_files = ''/tmp/danmaku_temp.xml'', input_format = ''Bilibili'',
        output_file = ''out.ass'', stage_width = 1440, stage_height = 1080, reserve_blank = 0,
        font_face = ''Simsun'', font_size = 25, text_opacity = 1, duration_marquee = 7,
        duration_still = 5\<rparr>
     \<in> set (drop (length (trace w0)) (trace (snd (make_ass_file_danmakus_xml env0 cheese0 None
          ''out.ass'' None ''Simsun'' 25 1 7 5 w0)))) \<and>
   ''/tmp/danmaku_temp.xml'' \<in> dom (files (snd (make_ass_file_danmakus_xml env0 cheese0 None
          ''out.ass'' None ''Simsun'' 25 1 7 5 w0)))"
proof -
  have s: "str_replace ''.ass'' ''.srt'' ''out.ass'' = ''out.srt''" by simp
  have t: "danmaku_temp env0 = ''/tmp/danmaku_temp.xml''"
    by (simp add: danmaku_temp_def env0_def)
  have 1: "fst (export_ass_from_json env0 ''/tmp/in.json'' ''out.ass'' w_json) = Inr ()"
    by (simp add: export_ass_from_json_cases env0_def w_json_def Let_def)
  have 2: "EvDanmaku2ASS \<lparr>input_files = ''/tmp/danmaku_temp.xml'', input_format = ''Bilibili'',
        output_file = ''out.ass'', stage_width = 1440, stage_height = 1080, reserve_blank = 0,
        font_face = ''Simsun'', font_size = 25, text_opacity = 1, duration_marquee = 7,
        duration_still = 5\<rparr>
     \<in> set (drop (length (trace w0)) (trace (snd (make_ass_file_danmakus_xml env0 cheese0 None
          ''out.ass'' None ''Simsun'' 25 1 7 5 w0))))"
    by (simp add: make_ass_file_danmakus_xml_def dispatch_danmaku_xml_def class_defs io_defs
        export_ass_from_xml_trace t cheese0_def video_online_def w0_def)
  note a = temporary_files_after_use [of env0 "''/tmp/in.json''" "''out.ass''" w_json,
      THEN conjunct1, unfolded s]
  note b = temporary_files_after_use [of env0 _ "''out.ass''" w0 cheese0 None None
      "''Simsun''" 25 1 7 5,
      THEN conjunct2, THEN conjunct2, THEN conjunct2, THEN conjunct1, rule_format, unfolded t]
  from a 1 have 3: "''out.srt'' \<notin> dom (files (snd (export_ass_from_json env0 ''/tmp/in.json''
      ''out.ass'' w_json)))"
    by blast
  from b [OF 2] have 4: "''/tmp/danmaku_temp.xml'' \<in> dom (files (snd (make_ass_file_danmakus_xml
      env0 cheese0 None ''out.ass'' None ''Simsun'' 25 1 7 5 w0)))" .
  from 1 3 2 4 show ?thesis by (intro conjI)
qed

text \<open>
  The temporary files that are not removed: after the course video has been converted
  and the call has returned, the temporary danmaku file still holds the XML; after the
  Chinese subtitle has been converted and the call has returned, the temporary subtitle
  JSON file still holds the download.
\<close>

theorem temporary_files_not_removed:
  "fst (make_ass_file_danmakus_xml env0 cheese0 None ''out.ass'' None ''Simsun'' 25 1 7 5 w0) =
     Inr () \<and>
   files (snd (make_ass_file_danmakus_xml env0 cheese0 None ''out.ass'' None ''Simsun'' 25 1 7 5
     w0)) ''/tmp/danmaku_temp.xml'' = Some ''<i><d>a</d></i>'' \<and>
   fst (make_ass_file_subtitle env0 video_online ''out.ass'' ''Chinese'' None w0) = Inr () \<and>
   files (snd (make_ass_file_subtitle env0 video_online ''out.ass'' ''Chinese'' None w0))
     ''/tmp/subtitle.json'' = Some ''[captions]''"
proof -
  have x: "make_ass_file_danmakus_xml env0 cheese0 None ''out.ass'' None ''Simsun'' 25 1 7 5 w0 =
     (Inr (), \<lparr>files = [''/tmp/danmaku_temp.xml'' \<mapsto> ''<i><d>a</d></i>'',
                       ''out.ass'' \<mapsto> ''ass of <i><d>a</d></i>''],
              trace = [EvGetDanmakuXml None,
                EvDanmaku2ASS \<lparr>input_files = ''/tmp/danmaku_temp.xml'',
                  input_format = ''Bilibili'', output_file = ''out.ass'', stage_width = 1440,
                  stage_height = 1080, reserve_blank = 0, font_face = ''Simsun'', font_size = 25,
                  text_opacity = 1, duration_marquee = 7, duration_still = 5\<rparr>]\<rparr>)"
    by (simp add: make_ass_file_danmakus_xml_def dispatch_danmaku_xml_def class_defs io_defs
        export_ass_from_xml_def Danmaku2ASS_cases danmaku_temp_def Let_def
        cheese0_def video_online_def w0_def env0_def)
  have l: "subtitle_loop env0 tracks0 ''out.ass'' ''Chinese'' (w0\<lparr>trace := [EvGetInfo]\<rparr>) =
     (Inr (), \<lparr>files = [''/tmp/subtitle.json'' \<mapsto> ''[captions]'',
                       ''out.ass'' \<mapsto> ''ass of srt of [captions]''],
              trace = [EvGetInfo, EvHttpGet ''https://host/zh.json'',
                EvJson2Srt ''/tmp/subtitle.json'' ''out.srt'',
                EvSrt2Ass ''out.srt'' ''out.ass'' ''movie'', EvRemove ''out.srt'']\<rparr>)"
    by (simp add: tracks0_def io_defs export_ass_from_json_cases Let_def w0_def env0_def)
  have s: "make_ass_file_subtitle env0 video_online ''out.ass'' ''Chinese'' None w0 =
     subtitle_loop env0 tracks0 ''out.ass'' ''Chinese'' (w0\<lparr>trace := [EvGetInfo]\<rparr>)"
    by (simp add: make_ass_file_subtitle_def io_defs video_online_def info0_def w0_def)
  show ?thesis
    unfolding x s l by simp
qed

end
